theory Spec2Isabelle
  imports Main "HOL-Library.Log_Nat"
begin

section \<open>Runes and UTF-8 decoding\<close>

text \<open>
  A Go \<open>string\<close> is a sequence of bytes (here \<open>string\<close>, a list of 8-bit characters) and a
  \<open>rune\<close> is a code point. The lexer declares \<^verbatim>\<open>const ( eof rune = iota )\<close>, so its
  end-of-input sentinel is the code point 0.
\<close>

type_synonym rune = nat

definition eof :: rune where
  "eof = 0"

definition RuneError :: rune where
  "RuneError = 65533"

abbreviation (input) rn :: "char \<Rightarrow> rune" where
  "rn c \<equiv> of_char c"

text \<open>
  \<open>utf8.DecodeRuneInString\<close> of the Go standard library: the first rune of a string and
  its width in bytes; \<open>(RuneError, 0)\<close> for the empty string and \<open>(RuneError, 1)\<close> for an
  invalid encoding. The ranges of the second byte follow the library's table
  (\<open>E0\<close>, \<open>ED\<close>, \<open>F0\<close> and \<open>F4\<close> narrow it).
\<close>

definition DecodeRuneInString :: "string \<Rightarrow> rune \<times> nat" where
  "DecodeRuneInString s =
     (case s of
        [] \<Rightarrow> (RuneError, 0)
      | c0 # _ \<Rightarrow>
         (let s0 = (of_char c0 :: nat); n = length s in
          if s0 < 128 then (s0, 1)
          else if s0 < 194 \<or> 244 < s0 then (RuneError, 1)
          else
            (let sz = (if s0 < 224 then 2 else if s0 < 240 then 3 else (4::nat));
                 lo = (if s0 = 224 then 160 else if s0 = 240 then 144 else (128::nat));
                 hi = (if s0 = 237 then 159 else if s0 = 244 then 143 else (191::nat))
             in if n < sz then (RuneError, 1)
                else
                  (let s1 = (of_char (s ! 1) :: nat) in
                   if s1 < lo \<or> hi < s1 then (RuneError, 1)
                   else if sz \<le> 2 then ((s0 mod 32) * 64 + s1 mod 64, 2)
                   else
                     (let s2 = (of_char (s ! 2) :: nat) in
                      if s2 < 128 \<or> 191 < s2 then (RuneError, 1)
                      else if sz \<le> 3
                      then ((s0 mod 16) * 4096 + (s1 mod 64) * 64 + s2 mod 64, 3)
                      else
                        (let s3 = (of_char (s ! 3) :: nat) in
                         if s3 < 128 \<or> 191 < s3 then (RuneError, 1)
                         else ((s0 mod 8) * 262144 + (s1 mod 64) * 4096
                               + (s2 mod 64) * 64 + s3 mod 64, 4)))))))"

section \<open>The lexer of \<open>better_lexer.go\<close>\<close>

subsection \<open>Tokens\<close>

datatype tokenType =
    tokenTypeError
  | tokenTypeEOF
  | tokenTypeInteger
  | tokenTypeFloat
  | tokenTypeString
  | tokenTypeSymbol
  | tokenTypeReference
  | tokenTypeCapitalizedReference
  | tokenTypeWhitespace
  | tokenTypeNewline
  | tokenTypeLParen
  | tokenTypeRParen
  | tokenTypeComma
  | tokenTypeDEF
  | tokenTypeEND
  | tokenTypeCLASS
  | tokenTypeMODULE
  | tokenTypeTRUE
  | tokenTypeFALSE
  | tokenTypeLessThan
  | tokenTypeGreaterThan
  | tokenTypeColon
  | tokenTypeEqual
  | tokenTypeBang
  | tokenTypeTilde
  | tokenTypePlus
  | tokenTypeMinus
  | tokenTypeStar
  | tokenTypeLBracket
  | tokenTypeRBracket
  | tokenTypeLBrace
  | tokenTypeRBrace
  | tokenTypeDollarSign
  | tokenTypeAtSign

text \<open>
  \<^verbatim>\<open>type token struct { typ tokenType; value string }\<close>. The two fields carry a
  \<open>tok_\<close> prefix here.
\<close>

record token =
  tok_typ :: tokenType
  tok_value :: string

subsection \<open>The scanner state\<close>

text \<open>
  \<^verbatim>\<open>
  type BetterRubyLexer struct {
      input string
      start int
      pos   int
      width int // width of last rune read from input
      tokens chan token
      LastError error
  }
  \<close>
  The channel is unbuffered and has one producer (\<open>run\<close>) and one consumer (\<open>Lex\<close>), so
  what it carries is the sequence of tokens sent, in the order of the sends: \<open>tokens\<close> is
  that sequence so far and \<open>closed\<close> records \<open>close(lexer.tokens)\<close>.
\<close>

record BetterRubyLexer =
  input :: string
  start :: int
  pos :: int
  width :: int
  tokens :: "token list"
  closed :: bool
  LastError :: "string option"

text \<open>
  What can stop the lexer abruptly: the two explicit panics of \<open>lexAnything\<close>
  and \<open>Lex\<close>, the panics \<open>Lex\<close> raises from a failed number conversion, and the
  run-time panic of a slice expression whose bounds are out of range.
\<close>

datatype lex_panic =
    UnknownRune rune            \<comment> \<open>\<open>unknown rune encountered\<close>\<close>
  | ErrorToken string           \<comment> \<open>\<open>error, unknown token\<close>, raised by \<open>Lex\<close>\<close>
  | AtoiError string            \<comment> \<open>\<open>panic(err)\<close> after \<open>strconv.Atoi\<close>\<close>
  | ParseFloatError string      \<comment> \<open>\<open>panic(err)\<close> after \<open>strconv.ParseFloat\<close>\<close>
  | SliceBoundsOutOfRange

definition slice :: "string \<Rightarrow> int \<Rightarrow> int \<Rightarrow> lex_panic + string" where
  \<comment> \<open>\<open>s[lo:hi]\<close>\<close>
  "slice s lo hi =
     (if 0 \<le> lo \<and> lo \<le> hi \<and> hi \<le> int (length s)
      then Inr (take (nat (hi - lo)) (drop (nat lo) s))
      else Inl SliceBoundsOutOfRange)"

definition next_rune :: "BetterRubyLexer \<Rightarrow> lex_panic + (rune \<times> BetterRubyLexer)" where
  \<comment> \<open>\<open>next\<close>\<close>
  "next_rune l =
     (if pos l \<ge> int (length (input l)) then Inr (eof, l\<lparr>width := 0\<rparr>)
      else (case slice (input l) (pos l) (int (length (input l))) of
              Inl e \<Rightarrow> Inl e
            | Inr rest \<Rightarrow>
               (let (r, w) = DecodeRuneInString rest
                in Inr (r, l\<lparr>width := int w, pos := pos l + int w\<rparr>))))"

definition backup :: "BetterRubyLexer \<Rightarrow> BetterRubyLexer" where
  "backup l = l\<lparr>pos := pos l - width l\<rparr>"

definition ignore :: "BetterRubyLexer \<Rightarrow> BetterRubyLexer" where
  "ignore l = l\<lparr>start := pos l\<rparr>"

definition peek :: "BetterRubyLexer \<Rightarrow> lex_panic + (rune \<times> BetterRubyLexer)" where
  "peek l = (case next_rune l of Inl e \<Rightarrow> Inl e | Inr (r, l') \<Rightarrow> Inr (r, backup l'))"

definition emit :: "tokenType \<Rightarrow> BetterRubyLexer \<Rightarrow> lex_panic + BetterRubyLexer" where
  "emit t l =
     (case slice (input l) (start l) (pos l) of
        Inl e \<Rightarrow> Inl e
      | Inr v \<Rightarrow> Inr (l\<lparr>tokens := tokens l @ [\<lparr>tok_typ = t, tok_value = v\<rparr>], start := pos l\<rparr>))"

subsection \<open>The dispatch state\<close>

text \<open>
  \<^verbatim>\<open>type stateFn func(*BetterRubyLexer) stateFn\<close>: a state function is named by a tag,
  \<open>nil\<close> is \<open>None\<close>. A state function returns the scanner it leaves behind and the state to
  go on with, or the panic that stopped it together with the scanner at that moment.
\<close>

datatype stateFn =
    LexAnything
  | LexNumber
  | LexSingleQuoteString
  | LexSymbol
  | LexWhitespace
  | LexNewlines
  | LexReference
  | LexComment

type_synonym state_result = "(lex_panic \<times> BetterRubyLexer) + (BetterRubyLexer \<times> stateFn option)"

text \<open>
  One pass through the \<open>switch\<close> of \<open>lexAnything\<close>: either the state function returns
  (\<open>Return\<close>) or control leaves the \<open>switch\<close> and reaches the test \<open>l.peek() == eof\<close>
  (\<open>Break\<close>). The cases are tried in the order of the source. In Go the \<open>break\<close> of
  \<open>case r == eof\<close> leaves the \<open>switch\<close>, not the loop.
\<close>

datatype switch_result = Return BetterRubyLexer stateFn | Break BetterRubyLexer

definition emit_then :: "tokenType \<Rightarrow> BetterRubyLexer \<Rightarrow> (BetterRubyLexer \<Rightarrow> switch_result)
    \<Rightarrow> (lex_panic \<times> BetterRubyLexer) + switch_result" where
  "emit_then t l k = (case emit t l of Inl e \<Rightarrow> Inl (e, l) | Inr l' \<Rightarrow> Inr (k l'))"

definition lexAnything_switch :: "BetterRubyLexer \<Rightarrow> (lex_panic \<times> BetterRubyLexer) + switch_result" where
  "lexAnything_switch l =
     (case next_rune l of
        Inl e \<Rightarrow> Inl (e, l)
      | Inr (r, l1) \<Rightarrow>
         if rn CHR ''0'' \<le> r \<and> r \<le> rn CHR ''9'' then Inr (Return (backup l1) LexNumber)
         else if r = rn CHR 0x27 then Inr (Return l1 LexSingleQuoteString)
         else if r = rn CHR '':'' then Inr (Return (l1\<lparr>start := start l1 + 1\<rparr>) LexSymbol)
         else if r = rn CHR '' '' \<or> r = rn CHR 0x09 then Inr (Return (backup l1) LexWhitespace)
         else if r = rn CHR 0x0A then Inr (Return (backup l1) LexNewlines)
         else if (rn CHR ''a'' \<le> r \<and> r \<le> rn CHR ''z'') \<or> r = rn CHR ''_''
                 \<or> (rn CHR ''A'' \<le> r \<and> r \<le> rn CHR ''Z'')
              then Inr (Return (backup l1) LexReference)
         else if r = rn CHR ''('' then emit_then tokenTypeLParen l1 Break
         else if r = rn CHR '')'' then emit_then tokenTypeRParen l1 Break
         else if r = rn CHR '','' then emit_then tokenTypeComma l1 Break
         else if r = rn CHR ''#'' then Inr (Return l1 LexComment)
         else if r = rn CHR ''<'' then emit_then tokenTypeLessThan l1 (\<lambda>l'. Return l' LexAnything)
         else if r = rn CHR ''>'' then emit_then tokenTypeGreaterThan l1 (\<lambda>l'. Return l' LexAnything)
         else if r = rn CHR ''='' then emit_then tokenTypeEqual l1 (\<lambda>l'. Return l' LexAnything)
         else if r = rn CHR ''!'' then emit_then tokenTypeBang l1 (\<lambda>l'. Return l' LexAnything)
         else if r = rn CHR ''~'' then emit_then tokenTypeTilde l1 (\<lambda>l'. Return l' LexAnything)
         else if r = rn CHR ''+'' then emit_then tokenTypePlus l1 (\<lambda>l'. Return l' LexAnything)
         else if r = rn CHR ''-'' then emit_then tokenTypeMinus l1 (\<lambda>l'. Return l' LexAnything)
         else if r = rn CHR ''*'' then emit_then tokenTypeStar l1 (\<lambda>l'. Return l' LexAnything)
         else if r = rn CHR ''['' then emit_then tokenTypeLBracket l1 (\<lambda>l'. Return l' LexAnything)
         else if r = rn CHR '']'' then emit_then tokenTypeRBracket l1 (\<lambda>l'. Return l' LexAnything)
         else if r = rn CHR ''{'' then emit_then tokenTypeLBrace l1 (\<lambda>l'. Return l' LexAnything)
         else if r = rn CHR ''}'' then emit_then tokenTypeRBrace l1 (\<lambda>l'. Return l' LexAnything)
         else if r = rn CHR ''$'' then emit_then tokenTypeDollarSign l1 (\<lambda>l'. Return l' LexAnything)
         else if r = rn CHR ''@'' then emit_then tokenTypeAtSign l1 (\<lambda>l'. Return l' LexAnything)
         else if r = eof then Inr (Break l1)
         else Inl (UnknownRune r, l1))"

text \<open>
  After the loop:
  \<^verbatim>\<open>
  if l.start != len(l.input) { l.emit(tokenTypeError) }
  l.emit(tokenTypeEOF)
  return nil
  \<close>
\<close>

definition lexAnything_end :: "BetterRubyLexer \<Rightarrow> state_result" where
  "lexAnything_end l =
     (case (if start l \<noteq> int (length (input l)) then emit tokenTypeError l else Inr l) of
        Inl e \<Rightarrow> Inl (e, l)
      | Inr l1 \<Rightarrow>
         (case emit tokenTypeEOF l1 of
            Inl e \<Rightarrow> Inl (e, l1)
          | Inr l2 \<Rightarrow> Inr (l2, None)))"

text \<open>
  The loop of \<open>lexAnything\<close> goes round again only after a rune was consumed, which is what
  makes it terminate; the facts about the scanner primitives that show it come first.
\<close>

lemma DecodeRuneInString_width_pos: "s \<noteq> [] \<Longrightarrow> 1 \<le> snd (DecodeRuneInString s)"
  by (cases s) (simp_all add: DecodeRuneInString_def Let_def)

lemma DecodeRuneInString_width_le: "snd (DecodeRuneInString s) \<le> length s"
  by (cases s) (simp_all add: DecodeRuneInString_def Let_def Suc_le_eq not_less)

lemma next_rune_at_end:
  "int (length (input l)) \<le> pos l \<Longrightarrow> next_rune l = Inr (eof, l\<lparr>width := 0\<rparr>)"
  by (simp add: next_rune_def)

lemma next_rune_inside:
  assumes "next_rune l = Inr (r, l1)" and "pos l < int (length (input l))"
  shows "0 \<le> pos l \<and> 1 \<le> width l1 \<and> pos l1 = pos l + width l1
         \<and> pos l1 \<le> int (length (input l))
         \<and> l1 = l\<lparr>width := width l1, pos := pos l1\<rparr>"
proof -
  from assms have p0: "0 \<le> pos l"
    by (auto simp: next_rune_def slice_def split: if_splits)
  define rest where "rest = drop (nat (pos l)) (input l)"
  from assms p0 have rest_ne: "rest \<noteq> []" by (simp add: rest_def)
  obtain r' w where d: "DecodeRuneInString rest = (r', w)" by (cases "DecodeRuneInString rest")
  from DecodeRuneInString_width_pos[OF rest_ne] DecodeRuneInString_width_le[of rest] d
  have w: "1 \<le> w" "w \<le> length rest" by simp_all
  from assms p0 d have l1: "l1 = l\<lparr>width := int w, pos := pos l + int w\<rparr>"
    by (simp add: next_rune_def slice_def rest_def)
  from w p0 assms(2) have "pos l + int w \<le> int (length (input l))"
    by (simp add: rest_def)
  with l1 w p0 show ?thesis by simp
qed

lemma next_rune_fields:
  "next_rune l = Inr (r, l1) \<Longrightarrow>
     input l1 = input l \<and> tokens l1 = tokens l \<and> start l1 = start l
     \<and> closed l1 = closed l \<and> LastError l1 = LastError l"
  by (auto simp: next_rune_def Let_def split: if_splits sum.splits prod.splits)

lemma emit_fields:
  "emit t l = Inr l' \<Longrightarrow>
     input l' = input l \<and> pos l' = pos l \<and> width l' = width l \<and> start l' = pos l
     \<and> closed l' = closed l \<and> LastError l' = LastError l"
  by (auto simp: emit_def split: sum.splits)

lemma peek_fields:
  "peek l = Inr (r, l') \<Longrightarrow>
     input l' = input l \<and> pos l' = pos l \<and> tokens l' = tokens l \<and> start l' = start l
     \<and> closed l' = closed l \<and> LastError l' = LastError l"
  by (auto simp: peek_def next_rune_def backup_def Let_def split: sum.splits if_splits prod.splits)

lemma peek_at_end: "int (length (input l)) \<le> pos l \<Longrightarrow> peek l = Inr (r, l') \<Longrightarrow> r = eof"
  by (auto simp: peek_def next_rune_def)

lemma switch_Break:
  assumes "lexAnything_switch l = Inr (Break l')"
  shows "input l' = input l \<and>
         ((int (length (input l)) \<le> pos l \<and> pos l' = pos l) \<or>
          (pos l < int (length (input l)) \<and> pos l < pos l'))"
proof -
  from assms obtain r l1 where n: "next_rune l = Inr (r, l1)"
    by (auto simp: lexAnything_switch_def split: sum.splits)
  show ?thesis
  proof (cases "pos l < int (length (input l))")
    case True
    from next_rune_inside[OF n True] next_rune_fields[OF n]
    have a: "pos l < pos l1" "input l1 = input l" by auto
    from assms n have "l' = l1 \<or> (\<exists>t. emit t l1 = Inr l')"
      by (auto simp: lexAnything_switch_def emit_then_def split: if_splits sum.splits)
    with a True show ?thesis by (auto dest: emit_fields)
  next
    case False
    then have "next_rune l = Inr (eof, l\<lparr>width := 0\<rparr>)" by (simp add: next_rune_at_end)
    with n have "r = eof" "l1 = l\<lparr>width := 0\<rparr>" by simp_all
    with assms n have "l' = l1"
      by (auto simp: lexAnything_switch_def eof_def split: if_splits)
    with False \<open>l1 = _\<close> show ?thesis by simp
  qed
qed

text \<open>
  \<^verbatim>\<open>
  func lexAnything(l *BetterRubyLexer) stateFn {
      for {
          switch r := l.next(); { ... }
          if l.peek() == eof {
              break
          }
      }
      ...
  }
  \<close>
\<close>

function lexAnything :: "BetterRubyLexer \<Rightarrow> state_result" where
  "lexAnything l =
     (case lexAnything_switch l of
        Inl e \<Rightarrow> Inl e
      | Inr (Return l' st) \<Rightarrow> Inr (l', Some st)
      | Inr (Break l') \<Rightarrow>
         (case peek l' of
            Inl e \<Rightarrow> Inl (e, l')
          | Inr (r, l'') \<Rightarrow> if r = eof then lexAnything_end l'' else lexAnything l''))"
  by pat_completeness auto
termination
proof (relation "measure (\<lambda>l. nat (int (length (input l)) - pos l))", goal_cases)
  case 1
  show ?case by simp
next
  case (2 l sw l' pk r l'')
  then have sw: "lexAnything_switch l = Inr (Break l')" and pk: "peek l' = Inr (r, l'')"
    and r: "r \<noteq> eof" by simp_all
  from switch_Break[OF sw] have b: "input l' = input l"
    "(int (length (input l)) \<le> pos l \<and> pos l' = pos l) \<or>
          (pos l < int (length (input l)) \<and> pos l < pos l')" by auto
  from peek_fields[OF pk] have p: "input l'' = input l'" "pos l'' = pos l'" by auto
  from b(2) show ?case
  proof
    assume "int (length (input l)) \<le> pos l \<and> pos l' = pos l"
    with b(1) have "int (length (input l')) \<le> pos l'" by simp
    from peek_at_end[OF this pk] r show ?thesis by simp
  next
    assume "pos l < int (length (input l)) \<and> pos l < pos l'"
    with p b(1) show ?thesis by simp
  qed
qed

declare lexAnything.simps [simp del]

subsection \<open>The producer\<close>

text \<open>
  \<^verbatim>\<open>
  func NewBetterLexer(input string) *BetterRubyLexer {
      lexer := &BetterRubyLexer{ input: input, tokens: make(chan token) }
      go lexer.run()
      return lexer
  }

  func (lexer *BetterRubyLexer) run() {
      for state := lexAnything; state != nil; {
          state = state(lexer)
      }
      close(lexer.tokens)
  }
  \<close>
  Of the state functions \<open>lexAnything\<close> returns, only \<open>lexAnything\<close> itself is in
  \<open>better_lexer.go\<close>; the seven recognizers are defined elsewhere in the package. \<open>run\<close>
  therefore takes them as a parameter \<open>rs\<close>, which gives each tag other than \<open>LexAnything\<close> its
  state function. Nothing bounds the number of rounds of the loop for an arbitrary \<open>rs\<close>,
  so \<open>run\<close> is a partial function: \<open>None\<close> is a loop that never ends, \<open>Some (Inl (p, l))\<close> a
  panic \<open>p\<close> of the goroutine with the scanner as it was then, and \<open>Some (Inr l)\<close> a normal
  end, the channel closed.
\<close>

type_synonym recognizers = "stateFn \<Rightarrow> BetterRubyLexer \<Rightarrow> state_result"

definition NewBetterLexer :: "string \<Rightarrow> BetterRubyLexer" where
  "NewBetterLexer inp =
     \<lparr> input = inp, start = 0, pos = 0, width = 0, tokens = [], closed = False, LastError = None \<rparr>"

definition state_call :: "recognizers \<Rightarrow> stateFn \<Rightarrow> BetterRubyLexer \<Rightarrow> state_result" where
  "state_call rs st l = (if st = LexAnything then lexAnything l else rs st l)"

partial_function (option) run_loop ::
    "recognizers \<Rightarrow> stateFn option \<Rightarrow> BetterRubyLexer \<Rightarrow> ((lex_panic \<times> BetterRubyLexer) + BetterRubyLexer) option" where
  "run_loop rs state l =
     (case state of
        None \<Rightarrow> Some (Inr (l\<lparr>closed := True\<rparr>))
      | Some st \<Rightarrow>
         (case state_call rs st l of
            Inl e \<Rightarrow> Some (Inl e)
          | Inr (l', state') \<Rightarrow> run_loop rs state' l'))"

definition run :: "recognizers \<Rightarrow> BetterRubyLexer \<Rightarrow> ((lex_panic \<times> BetterRubyLexer) + BetterRubyLexer) option" where
  "run rs l = run_loop rs (Some LexAnything) l"

subsection \<open>Syntax tree nodes\<close>

text \<open>
  \<open>ast/nodes.go\<close> declares \<open>Block\<close>, \<open>ConstantInt\<close>, \<open>ConstantFloat\<close>, \<open>SimpleString\<close>,
  \<open>Symbol\<close>, \<open>BareReference\<close>, \<open>CallExpression\<close>, \<open>FuncDecl\<close> and \<open>ClassDecl\<close>; a field of
  struct type \<open>BareReference\<close> is given by its \<open>Name\<close>. The parser's tests build further
  nodes that \<open>nodes.go\<close> does not have: a \<open>Target\<close> in \<open>CallExpression\<close> (\<open>nil\<close> is \<open>None\<close>),
  \<open>InstanceVariable\<close>, \<open>Array\<close>, \<open>Boolean\<close>, \<open>Assignment\<close> and \<open>Nil\<close>. They are taken
  as the tests write them.

  A \<open>float64\<close> is kept as the finite binary64 number it is: sign, significand and exponent
  of \<open>(-1)\<^sup>s * m * 2\<^sup>e\<close> with \<open>e \<ge> -1074\<close>, and \<open>m < 2\<^sup>5\<^sup>3\<close> at least \<open>2\<^sup>5\<^sup>2\<close> unless \<open>e = -1074\<close>.
\<close>

datatype float64 = Float64 (f_neg: bool) (f_mant: nat) (f_exp: int)

datatype node =
    Block (Statements: "node list")
  | ConstantInt int
  | ConstantFloat float64
  | SimpleString string
  | Symbol string
  | BareReference string
  | CallExpression (Target: "node option") (Func: node) (Args: "node list")
  | FuncDecl string "node list" "node list"
  | ClassDecl (ClassName: string) (SuperClass: string) (Namespace: string) (Body: "node list")
  | InstanceVariable string
  | Array "node list"
  | Boolean bool
  | Assignment (LHS: node) (RHS: node)
  | Nil

subsection \<open>Number conversions of \<open>strconv\<close>\<close>

definition is_digit :: "char \<Rightarrow> bool" where
  "is_digit c = (rn CHR ''0'' \<le> rn c \<and> rn c \<le> rn CHR ''9'')"

definition digits_value :: "string \<Rightarrow> nat" where
  "digits_value ds = foldl (\<lambda>a c. 10 * a + (rn c - rn CHR ''0'')) 0 ds"

text \<open>
  \<open>strconv.Atoi\<close>: an optional sign and at least one decimal digit, nothing else; a value
  outside the range of \<open>int\<close> (64 bits) is an error. \<open>None\<close> is the error.
\<close>

definition Atoi :: "string \<Rightarrow> int option" where
  "Atoi s =
     (let (neg, ds) =
            (case s of
               [] \<Rightarrow> (False, [])
             | c # cs \<Rightarrow> if c = CHR ''-'' then (True, cs)
                         else if c = CHR ''+'' then (False, cs) else (False, s))
      in if ds = [] \<or> \<not> list_all is_digit ds then None
         else (let v = (if neg then - int (digits_value ds) else int (digits_value ds))
               in if - (2 ^ 63) \<le> v \<and> v < 2 ^ 63 then Some v else None))"

text \<open>
  The binary64 number nearest to the fraction \<open>n / d\<close> (ties to the even significand), as
  significand and exponent; \<open>None\<close> when the result is beyond the largest finite number.
  A value too small for a normal number is rounded on the subnormal grid \<open>2\<^sup>-\<^sup>1\<^sup>0\<^sup>7\<^sup>4\<close>.
\<close>

definition round_half_even :: "nat \<Rightarrow> nat \<Rightarrow> nat" where
  "round_half_even num den =
     (let q = num div den; r = num mod den
      in if den < 2 * r \<or> (2 * r = den \<and> odd q) then q + 1 else q)"

definition scaled :: "nat \<Rightarrow> nat \<Rightarrow> int \<Rightarrow> nat \<times> nat" where
  \<comment> \<open>numerator and denominator of \<open>(n / d) / 2\<^sup>e\<close>\<close>
  "scaled n d e = (if e \<le> 0 then (n * 2 ^ nat (- e), d) else (n, d * 2 ^ nat e))"

definition round64 :: "nat \<Rightarrow> nat \<Rightarrow> (nat \<times> int) option" where
  "round64 n d =
     (if n = 0 then Some (0, - 1074)
      else
        (let e0 = int (floorlog 2 n) - int (floorlog 2 d) - 53;
             (n0, d0) = scaled n d e0;
             e1 = (if 2 ^ 53 * d0 \<le> n0 then e0 + 1 else e0);
             e2 = max e1 (- 1074);
             (n2, d2) = scaled n d e2;
             m = round_half_even n2 d2;
             (m', e') = (if m = 2 ^ 53 then (2 ^ 52, e2 + 1) else (m, e2))
         in if 971 < e' then None else Some (m', e')))"

text \<open>
  \<open>strconv.ParseFloat(s, 64)\<close> on decimal text: an optional sign, digits with at most one
  point and at least one digit, and an optional exponent \<open>e\<close> or \<open>E\<close> with an optional sign
  and at least one digit. \<open>None\<close> is the error (bad syntax, or a value out of range).
  The other spellings \<open>ParseFloat\<close> accepts (hexadecimal, infinities, NaN, digit
  separators) are not modelled and count as bad syntax here; no text cut from a run of
  digits and points is one of them.
\<close>

definition split_exponent :: "string \<Rightarrow> (string \<times> int) option" where
  "split_exponent s =
     (let mant = takeWhile (\<lambda>c. c \<noteq> CHR ''e'' \<and> c \<noteq> CHR ''E'') s;
          rest = dropWhile (\<lambda>c. c \<noteq> CHR ''e'' \<and> c \<noteq> CHR ''E'') s
      in case rest of
           [] \<Rightarrow> Some (mant, 0)
         | _ # ex \<Rightarrow>
            (let (neg, ds) =
                   (case ex of
                      [] \<Rightarrow> (False, [])
                    | c # cs \<Rightarrow> if c = CHR ''-'' then (True, cs)
                                else if c = CHR ''+'' then (False, cs) else (False, ex))
             in if ds = [] \<or> \<not> list_all is_digit ds then None
                else Some (mant, if neg then - int (digits_value ds) else int (digits_value ds))))"

definition ParseFloat :: "string \<Rightarrow> float64 option" where
  "ParseFloat s =
     (let (neg, body) =
            (case s of
               [] \<Rightarrow> (False, [])
             | c # cs \<Rightarrow> if c = CHR ''-'' then (True, cs)
                         else if c = CHR ''+'' then (False, cs) else (False, s))
      in case split_exponent body of
           None \<Rightarrow> None
         | Some (mant, ex) \<Rightarrow>
            (let ip = takeWhile (\<lambda>c. c \<noteq> CHR ''.'') mant;
                 fp = drop 1 (dropWhile (\<lambda>c. c \<noteq> CHR ''.'') mant)
             in if ip @ fp = [] \<or> \<not> list_all is_digit (ip @ fp) then None
                else
                  (let ten = ex - int (length fp);
                       n = digits_value (ip @ fp) * (if 0 \<le> ten then 10 ^ nat ten else 1);
                       d = (if 0 \<le> ten then 1 else 10 ^ nat (- ten))
                   in case round64 n d of
                        None \<Rightarrow> None
                      | Some (m, e) \<Rightarrow> Some (Float64 neg m e))))"

subsection \<open>The consumer: \<open>Lex\<close>\<close>

text \<open>
  \<open>Lex\<close> is what the generated parser calls for its next terminal: it receives one token
  from the channel, stores a node in \<open>lval.genericValue\<close> for three kinds of token and
  returns the parser's code for the terminal. The codes (\<open>NODE\<close>, \<open>REF\<close>, ...) are constants
  of the generated parser; \<open>EndOfStream\<close> stands for the \<open>0\<close> that \<open>Lex\<close> returns when the
  channel is closed and empty.

  \<open>Lex\<close> is given the tokens still to come on a closed channel and also returns those left.
  Its \<open>switch\<close> has a case for every \<open>tokenType\<close>, so its \<open>default\<close> panic is not reached.
\<close>

datatype yysym =
    EndOfStream
  | NODE | REF | CAPITAL_REF | LPAREN | RPAREN | COMMA | WHITESPACE | NEWLINE | EOF
  | DEF | END | CLASS | MODULE | TRUE | FALSE | LESSTHAN | GREATERTHAN | COLON | EQUALTO
  | BANG | COMPLEMENT | POSITIVE | NEGATIVE | STAR | LBRACKET | RBRACKET | LBRACE | RBRACE
  | DOLLARSIGN | ATSIGN

record RubySymType =
  genericValue :: "node option"

definition Lex :: "RubySymType \<Rightarrow> token list \<Rightarrow> lex_panic + (yysym \<times> RubySymType \<times> token list)" where
  "Lex lval ch =
     (case ch of
        [] \<Rightarrow> Inr (EndOfStream, lval, [])
      | tok # rest \<Rightarrow>
         (case tok_typ tok of
            tokenTypeInteger \<Rightarrow>
              (case Atoi (tok_value tok) of
                 None \<Rightarrow> Inl (AtoiError (tok_value tok))
               | Some intVal \<Rightarrow> Inr (NODE, lval\<lparr>genericValue := Some (ConstantInt intVal)\<rparr>, rest))
          | tokenTypeFloat \<Rightarrow>
              (case ParseFloat (tok_value tok) of
                 None \<Rightarrow> Inl (ParseFloatError (tok_value tok))
               | Some floatval \<Rightarrow> Inr (NODE, lval\<lparr>genericValue := Some (ConstantFloat floatval)\<rparr>, rest))
          | tokenTypeString \<Rightarrow> Inr (NODE, lval\<lparr>genericValue := Some (SimpleString (tok_value tok))\<rparr>, rest)
          | tokenTypeSymbol \<Rightarrow> Inr (NODE, lval\<lparr>genericValue := Some (Symbol (tok_value tok))\<rparr>, rest)
          | tokenTypeReference \<Rightarrow> Inr (REF, lval\<lparr>genericValue := Some (BareReference (tok_value tok))\<rparr>, rest)
          | tokenTypeCapitalizedReference \<Rightarrow>
              Inr (CAPITAL_REF, lval\<lparr>genericValue := Some (BareReference (tok_value tok))\<rparr>, rest)
          | tokenTypeLParen \<Rightarrow> Inr (LPAREN, lval, rest)
          | tokenTypeRParen \<Rightarrow> Inr (RPAREN, lval, rest)
          | tokenTypeComma \<Rightarrow> Inr (COMMA, lval, rest)
          | tokenTypeWhitespace \<Rightarrow> Inr (WHITESPACE, lval, rest)
          | tokenTypeNewline \<Rightarrow> Inr (NEWLINE, lval, rest)
          | tokenTypeEOF \<Rightarrow> Inr (EOF, lval, rest)
          | tokenTypeDEF \<Rightarrow> Inr (DEF, lval, rest)
          | tokenTypeEND \<Rightarrow> Inr (END, lval, rest)
          | tokenTypeCLASS \<Rightarrow> Inr (CLASS, lval, rest)
          | tokenTypeMODULE \<Rightarrow> Inr (MODULE, lval, rest)
          | tokenTypeTRUE \<Rightarrow> Inr (TRUE, lval, rest)
          | tokenTypeFALSE \<Rightarrow> Inr (FALSE, lval, rest)
          | tokenTypeLessThan \<Rightarrow> Inr (LESSTHAN, lval, rest)
          | tokenTypeGreaterThan \<Rightarrow> Inr (GREATERTHAN, lval, rest)
          | tokenTypeColon \<Rightarrow> Inr (COLON, lval, rest)
          | tokenTypeEqual \<Rightarrow> Inr (EQUALTO, lval, rest)
          | tokenTypeBang \<Rightarrow> Inr (BANG, lval, rest)
          | tokenTypeTilde \<Rightarrow> Inr (COMPLEMENT, lval, rest)
          | tokenTypePlus \<Rightarrow> Inr (POSITIVE, lval, rest)
          | tokenTypeMinus \<Rightarrow> Inr (NEGATIVE, lval, rest)
          | tokenTypeStar \<Rightarrow> Inr (STAR, lval, rest)
          | tokenTypeLBracket \<Rightarrow> Inr (LBRACKET, lval, rest)
          | tokenTypeRBracket \<Rightarrow> Inr (RBRACKET, lval, rest)
          | tokenTypeLBrace \<Rightarrow> Inr (LBRACE, lval, rest)
          | tokenTypeRBrace \<Rightarrow> Inr (RBRACE, lval, rest)
          | tokenTypeDollarSign \<Rightarrow> Inr (DOLLARSIGN, lval, rest)
          | tokenTypeAtSign \<Rightarrow> Inr (ATSIGN, lval, rest)
          | tokenTypeError \<Rightarrow> Inl (ErrorToken (tok_value tok))))"

text \<open>
  \<^verbatim>\<open>
  func (lexer *BetterRubyLexer) Error(error string) {
      lexer.LastError = errors.New(fmt.Sprintf("syntax error: %s\n", error))
  }
  \<close>
\<close>

definition Error :: "string \<Rightarrow> BetterRubyLexer \<Rightarrow> BetterRubyLexer" where
  "Error msg l = l\<lparr>LastError := Some (''syntax error: '' @ msg @ [CHR 0x0A])\<rparr>"

section \<open>The recognizers\<close>

text \<open>
  Modelled from the spec: the seven state functions \<open>lexNumber\<close>, \<open>lexSingleQuoteString\<close>,
  \<open>lexSymbol\<close>, \<open>lexWhitespace\<close>, \<open>lexNewlines\<close>, \<open>lexReference\<close> and \<open>lexComment\<close>, which
  \<open>lexAnything\<close> returns and which are not in \<open>better_lexer.go\<close>. Each is written with the
  scanner primitives of that file and follows the sentence of the Lexical Analyzer section
  quoted above it; each goes back to the dispatch state, but for an unterminated
  literal, where it emits an error token and halts production. The token kinds are
  those of the source's \<open>tokenType\<close>, so what has no kind there (interpolated symbols, say)
  is not recognised.
\<close>

definition bind_p :: "lex_panic + 'a \<Rightarrow> ('a \<Rightarrow> lex_panic + 'b) \<Rightarrow> lex_panic + 'b" where
  "bind_p m f = (case m of Inl e \<Rightarrow> Inl e | Inr x \<Rightarrow> f x)"

definition finish_token :: "BetterRubyLexer \<Rightarrow> lex_panic + BetterRubyLexer \<Rightarrow> state_result" where
  "finish_token l0 m = (case m of Inl e \<Rightarrow> Inl (e, l0) | Inr l' \<Rightarrow> Inr (l', Some LexAnything))"

text \<open>
  The loop of the scanner's \<open>acceptRun\<close> (consume a maximal run of runes of a class, then
  back up over the rune that ended it), for a class given as a predicate; the sentinel
  ends every run.
\<close>

function acceptRunOf :: "(rune \<Rightarrow> bool) \<Rightarrow> BetterRubyLexer \<Rightarrow> lex_panic + BetterRubyLexer" where
  "acceptRunOf P l =
     (case next_rune l of
        Inl e \<Rightarrow> Inl e
      | Inr (r, l1) \<Rightarrow> if r \<noteq> eof \<and> P r then acceptRunOf P l1 else Inr (backup l1))"
  by pat_completeness auto
termination
proof (relation "measure (\<lambda>(P, l). nat (int (length (input l)) - pos l))", goal_cases)
  case 1
  show ?case by simp
next
  case (2 P l x r l1)
  then have n: "next_rune l = Inr (r, l1)" and r: "r \<noteq> eof" by simp_all
  have "pos l < int (length (input l))"
  proof (rule ccontr)
    assume "\<not> pos l < int (length (input l))"
    then have "next_rune l = Inr (eof, l\<lparr>width := 0\<rparr>)" by (simp add: next_rune_at_end)
    with n r show False by simp
  qed
  from next_rune_inside[OF n this] next_rune_fields[OF n] show ?case by simp
qed

declare acceptRunOf.simps [simp del]

definition is_digit_rune :: "rune \<Rightarrow> bool" where
  "is_digit_rune r = (rn CHR ''0'' \<le> r \<and> r \<le> rn CHR ''9'')"

definition is_lower_rune :: "rune \<Rightarrow> bool" where
  "is_lower_rune r = ((rn CHR ''a'' \<le> r \<and> r \<le> rn CHR ''z'') \<or> r = rn CHR ''_'')"

definition is_upper_rune :: "rune \<Rightarrow> bool" where
  "is_upper_rune r = (rn CHR ''A'' \<le> r \<and> r \<le> rn CHR ''Z'')"

definition is_ident_rune :: "rune \<Rightarrow> bool" where
  "is_ident_rune r = (is_lower_rune r \<or> is_upper_rune r \<or> is_digit_rune r)"

text \<open>
  ``Numeric literal: scans digits; presence of a decimal point and further digits promotes
  it to a floating literal; otherwise an integer literal.'' A point that no digit follows is
  left for the dispatch state.
\<close>

definition lexNumber :: "BetterRubyLexer \<Rightarrow> state_result" where
  "lexNumber l =
     finish_token l
       (bind_p (acceptRunOf is_digit_rune l) (\<lambda>l1.
        bind_p (next_rune l1) (\<lambda>(r, l2).
          if r = rn CHR ''.''
          then bind_p (next_rune l2) (\<lambda>(r2, l3).
                 if is_digit_rune r2
                 then bind_p (acceptRunOf is_digit_rune l3) (emit tokenTypeFloat)
                 else emit tokenTypeInteger (l3\<lparr>pos := pos l1\<rparr>))
          else emit tokenTypeInteger (backup l2))))"

text \<open>
  ``Single-quoted string: the only recognized escape is \<open>\'\<close>, and it is not collapsed --
  the output token retains the literal backslash-quote sequence verbatim.'' The scan stops
  in front of the first quote that no backslash escapes (\<open>True\<close>), or at the end of the
  input (\<open>False\<close>). The state function is entered behind the opening quote.
\<close>

function scanSingleQuote :: "BetterRubyLexer \<Rightarrow> lex_panic + (bool \<times> BetterRubyLexer)" where
  "scanSingleQuote l =
     (case next_rune l of
        Inl e \<Rightarrow> Inl e
      | Inr (r, l1) \<Rightarrow>
         if r = eof then Inr (False, l1)
         else if r = rn CHR 0x27 then Inr (True, backup l1)
         else if r = rn CHR 0x5C
         then (case next_rune l1 of
                 Inl e \<Rightarrow> Inl e
               | Inr (r2, l2) \<Rightarrow>
                  if r2 = rn CHR 0x27 then scanSingleQuote l2 else scanSingleQuote (backup l2))
         else scanSingleQuote l1)"
  by pat_completeness auto
termination
proof (relation "measure (\<lambda>l. nat (int (length (input l)) - pos l))", goal_cases)
  case 1
  show ?case by simp
next
  case (2 l x r l1 y r2 l2)
  then have n: "next_rune l = Inr (r, l1)" and r: "r \<noteq> eof"
    and n2: "next_rune l1 = Inr (r2, l2)" by simp_all
  have in1: "pos l < int (length (input l))"
  proof (rule ccontr)
    assume "\<not> pos l < int (length (input l))"
    then have "next_rune l = Inr (eof, l\<lparr>width := 0\<rparr>)" by (simp add: next_rune_at_end)
    with n r show False by simp
  qed
  from next_rune_inside[OF n in1] next_rune_fields[OF n]
  have a: "pos l < pos l1" "input l1 = input l" by auto
  have "pos l1 \<le> pos l2 \<and> input l2 = input l1"
  proof (cases "pos l1 < int (length (input l1))")
    case True
    from next_rune_inside[OF n2 True] next_rune_fields[OF n2] show ?thesis by auto
  next
    case False
    then have "next_rune l1 = Inr (eof, l1\<lparr>width := 0\<rparr>)" by (simp add: next_rune_at_end)
    with n2 show ?thesis by auto
  qed
  with a in1 show ?case by simp
next
  case (3 l x r l1 y r2 l2)
  then have n: "next_rune l = Inr (r, l1)" and r: "r \<noteq> eof"
    and n2: "next_rune l1 = Inr (r2, l2)" by simp_all
  have in1: "pos l < int (length (input l))"
  proof (rule ccontr)
    assume "\<not> pos l < int (length (input l))"
    then have "next_rune l = Inr (eof, l\<lparr>width := 0\<rparr>)" by (simp add: next_rune_at_end)
    with n r show False by simp
  qed
  from next_rune_inside[OF n in1] next_rune_fields[OF n]
  have a: "pos l < pos l1" "input l1 = input l" by auto
  have "pos (backup l2) = pos l1 \<and> input (backup l2) = input l1"
  proof (cases "pos l1 < int (length (input l1))")
    case True
    from next_rune_inside[OF n2 True] next_rune_fields[OF n2] show ?thesis
      by (auto simp: backup_def)
  next
    case False
    then have "next_rune l1 = Inr (eof, l1\<lparr>width := 0\<rparr>)" by (simp add: next_rune_at_end)
    with n2 show ?thesis by (auto simp: backup_def)
  qed
  with a in1 show ?case by simp
next
  case (4 l x r l1)
  then have n: "next_rune l = Inr (r, l1)" and r: "r \<noteq> eof" by simp_all
  have in1: "pos l < int (length (input l))"
  proof (rule ccontr)
    assume "\<not> pos l < int (length (input l))"
    then have "next_rune l = Inr (eof, l\<lparr>width := 0\<rparr>)" by (simp add: next_rune_at_end)
    with n r show False by simp
  qed
  from next_rune_inside[OF n in1] next_rune_fields[OF n] show ?case by simp
qed

declare scanSingleQuote.simps [simp del]

definition lexSingleQuoteString :: "BetterRubyLexer \<Rightarrow> state_result" where
  "lexSingleQuoteString l =
     (case scanSingleQuote (ignore l) of
        Inl e \<Rightarrow> Inl (e, l)
      | Inr (True, l1) \<Rightarrow>
         (case emit tokenTypeString l1 of
            Inl e \<Rightarrow> Inl (e, l1)
          | Inr l2 \<Rightarrow>
             (case next_rune l2 of
                Inl e \<Rightarrow> Inl (e, l2)
              | Inr (r, l3) \<Rightarrow> Inr (ignore l3, Some LexAnything)))
      | Inr (False, l1) \<Rightarrow>
         (case emit tokenTypeError l1 of
            Inl e \<Rightarrow> Inl (e, l1)
          | Inr l2 \<Rightarrow> Inr (l2, None)))"

text \<open>
  ``Symbol: colon-prefixed identifier [...]; special characters (\<open>!\<close>, \<open>?\<close>) are legal
  trailing symbol characters'', and \<open>:@foo\<close> is the symbol named \<open>@foo\<close>. The dispatch state
  has already moved \<open>start\<close> past the colon.
\<close>

definition lexSymbol :: "BetterRubyLexer \<Rightarrow> state_result" where
  "lexSymbol l =
     finish_token l
       (bind_p (acceptRunOf (\<lambda>r. r = rn CHR ''@'') l) (\<lambda>l1.
        bind_p (acceptRunOf is_ident_rune l1) (\<lambda>l2.
        bind_p (next_rune l2) (\<lambda>(r, l3).
          emit tokenTypeSymbol (if r = rn CHR ''!'' \<or> r = rn CHR ''?'' then l3 else backup l3)))))"

text \<open>
  ``Whitespace/newline: intra-line whitespace is insignificant; a newline is a statement
  terminator.'' \<open>Lex\<close> hands both kinds of token on to the parser.
\<close>

definition lexWhitespace :: "BetterRubyLexer \<Rightarrow> state_result" where
  "lexWhitespace l =
     finish_token l
       (bind_p (acceptRunOf (\<lambda>r. r = rn CHR '' '' \<or> r = rn CHR 0x09) l) (emit tokenTypeWhitespace))"

definition lexNewlines :: "BetterRubyLexer \<Rightarrow> state_result" where
  "lexNewlines l =
     finish_token l (bind_p (acceptRunOf (\<lambda>r. r = rn CHR 0x0A) l) (emit tokenTypeNewline))"

text \<open>
  ``Identifiers/keywords: a leading lowercase letter or underscore yields a bare reference
  (trailing \<open>!\<close>/\<open>?\<close> permitted and significant); a leading uppercase letter yields a
  capitalized/constant reference; a fixed set of reserved words [...] are recognized as
  distinct token kinds rather than references.'' The reserved words are those with a kind
  in \<open>tokenType\<close>.
\<close>

definition reference_kind :: "string \<Rightarrow> tokenType" where
  "reference_kind text =
     (if text = ''def'' then tokenTypeDEF
      else if text = ''end'' then tokenTypeEND
      else if text = ''class'' then tokenTypeCLASS
      else if text = ''module'' then tokenTypeMODULE
      else if text = ''true'' then tokenTypeTRUE
      else if text = ''false'' then tokenTypeFALSE
      else if text \<noteq> [] \<and> is_upper_rune (rn (hd text)) then tokenTypeCapitalizedReference
      else tokenTypeReference)"

definition lexReference :: "BetterRubyLexer \<Rightarrow> state_result" where
  "lexReference l =
     finish_token l
       (bind_p (acceptRunOf is_ident_rune l) (\<lambda>l1.
        bind_p (next_rune l1) (\<lambda>(r, l2).
          (let l3 = (if r = rn CHR ''!'' \<or> r = rn CHR ''?'' then l2 else backup l2)
           in bind_p (slice (input l3) (start l3) (pos l3)) (\<lambda>text.
                emit (reference_kind text) l3)))))"

text \<open>
  ``Comments: \<open>#\<close> to end of line, discarded entirely (no token emitted).''
\<close>

definition lexComment :: "BetterRubyLexer \<Rightarrow> state_result" where
  "lexComment l =
     finish_token l (bind_p (acceptRunOf (\<lambda>r. r \<noteq> rn CHR 0x0A) l) (\<lambda>l1. Inr (ignore l1)))"

definition spec_recognizers :: recognizers where
  "spec_recognizers st =
     (case st of
        LexAnything \<Rightarrow> lexAnything
      | LexNumber \<Rightarrow> lexNumber
      | LexSingleQuoteString \<Rightarrow> lexSingleQuoteString
      | LexSymbol \<Rightarrow> lexSymbol
      | LexWhitespace \<Rightarrow> lexWhitespace
      | LexNewlines \<Rightarrow> lexNewlines
      | LexReference \<Rightarrow> lexReference
      | LexComment \<Rightarrow> lexComment)"

section \<open>What the token stream looks like\<close>

text \<open>
  The predicates the properties of the stream are stated with. \<open>no_eof\<close>: no end-of-input
  marker among the tokens. \<open>ends_once\<close>: the stream is not empty, its last token is the
  end-of-input marker or an error token, and no end-of-input marker comes before it.
\<close>

definition no_eof :: "token list \<Rightarrow> bool" where
  "no_eof ts = (tokenTypeEOF \<notin> tok_typ ` set ts)"








subsection \<open>Facts about the dispatch state\<close>

lemma no_eof_simps [simp]:
  "no_eof []" "no_eof (t # ts) = (tok_typ t \<noteq> tokenTypeEOF \<and> no_eof ts)"
  "no_eof (xs @ ys) = (no_eof xs \<and> no_eof ys)"
  by (auto simp: no_eof_def)




















subsection \<open>Facts about the recognizers\<close>

































section \<open>The File builtin: \<open>expand_path\<close>\<close>

text \<open>
  The builtins package gives the \<open>File\<close> class a method \<open>expand_path\<close>:
  \<^verbatim>\<open>
  func(self Value, args ...Value) (Value, error) {
      arg1 := args[0].(*StringValue).String()
      if arg1[0] == '~' {
          arg1 = os.Getenv("HOME") + arg1[1:]
      }
      var path string
      if len(args) == 2 {
          path = filepath.Join(args[1].(*StringValue).String(), arg1)
      } else {
          path, _ = filepath.Abs(arg1)
      }
      return NewString(path), nil
  }
  \<close>
  A Go string is a sequence of bytes, here a \<open>string\<close>. A \<open>Value\<close> is either a
  \<open>*StringValue\<close> or something else; the type assertion panics on the latter. Every
  run-time panic of the body is a value of \<open>builtin_panic\<close>; the two index panics are
  told apart by the place they come from.
\<close>

datatype Value = StringValue string | OtherValue

datatype builtin_panic =
    ArgsIndexOutOfRange      \<comment> \<open>\<open>args[k]\<close> with too few arguments\<close>
  | TypeAssertionFailed      \<comment> \<open>\<open>.(*StringValue)\<close> on another kind of value\<close>
  | StringIndexOutOfRange    \<comment> \<open>\<open>arg1[0]\<close> on the empty string\<close>

text \<open>
  What the body takes from its surroundings: the value of \<open>os.Getenv("HOME")\<close> and the two
  functions of \<open>path/filepath\<close> (\<open>Abs\<close> with its error dropped, as the code drops it).
\<close>

record file_env =
  getenv_HOME :: string
  filepath_Join :: "string \<Rightarrow> string \<Rightarrow> string"
  filepath_Abs :: "string \<Rightarrow> string"

definition asStringValue :: "Value \<Rightarrow> builtin_panic + string" where
  "asStringValue v = (case v of StringValue s \<Rightarrow> Inr s | OtherValue \<Rightarrow> Inl TypeAssertionFailed)"

definition expand_path :: "file_env \<Rightarrow> Value list \<Rightarrow> builtin_panic + Value" where
  "expand_path env args =
     (case args of
        [] \<Rightarrow> Inl ArgsIndexOutOfRange
      | a0 # _ \<Rightarrow>
         (case asStringValue a0 of
            Inl e \<Rightarrow> Inl e
          | Inr arg1 \<Rightarrow>
             (case arg1 of
                [] \<Rightarrow> Inl StringIndexOutOfRange
              | c # cs \<Rightarrow>
                 (let arg1' = (if c = CHR ''~'' then getenv_HOME env @ cs else arg1)
                  in if length args = 2
                     then (case asStringValue (args ! 1) of
                             Inl e \<Rightarrow> Inl e
                           | Inr dir \<Rightarrow> Inr (StringValue (filepath_Join env dir arg1')))
                     else Inr (StringValue (filepath_Abs env arg1'))))))"

text \<open>A stand-in environment for concrete runs: a home directory and naive path functions.\<close>

definition demo_env :: file_env where
  "demo_env = \<lparr> getenv_HOME = ''/home/u'',
                 filepath_Join = (\<lambda>d p. d @ ''/'' @ p),
                 filepath_Abs = (\<lambda>p. if p \<noteq> [] \<and> hd p = CHR ''/'' then p else ''/cwd/'' @ p) \<rparr>"

section \<open>Properties of \<open>expand_path\<close>\<close>

text \<open>
  C10. \<open>expand_path\<close> reads byte 0 of its first string argument before anything else is
  looked at: whatever the environment and whatever arguments follow, the read \<open>arg1[0]\<close>
  is out of bounds exactly when the first argument is the empty string. For a non-empty
  first argument the read is in bounds and the tilde test decides the path.
\<close>

theorem expand_path_first_byte_in_bounds_iff_nonempty:
  "(expand_path env (StringValue s # rest) = Inl StringIndexOutOfRange) = (s = [])"
  by (cases s)
     (auto simp: expand_path_def asStringValue_def Let_def split: sum.splits Value.splits)

theorem expand_path_first_byte_in_bounds_iff_nonempty_witness:
  "expand_path demo_env [StringValue ''''] = Inl StringIndexOutOfRange
   \<and> expand_path demo_env [StringValue '''', StringValue ''/srv''] = Inl StringIndexOutOfRange
   \<and> expand_path demo_env [StringValue ''~/x''] = Inr (StringValue ''/home/u/x'')"
  using expand_path_first_byte_in_bounds_iff_nonempty [of demo_env "''''" "[]"]
        expand_path_first_byte_in_bounds_iff_nonempty [of demo_env "''''" "[StringValue ''/srv'']"]
  by (simp add: expand_path_def asStringValue_def demo_env_def)

section \<open>Properties of the lexer\<close>

text \<open>
  The runes \<open>lexAnything\<close> has a case for: digits, letters and the underscore, the sentinel,
  and the punctuation of its \<open>switch\<close>.
\<close>

definition dispatched :: "rune \<Rightarrow> bool" where
  "dispatched r =
     (is_digit_rune r \<or> is_lower_rune r \<or> is_upper_rune r \<or> r = eof
      \<or> r \<in> rn ` set (CHR 0x27 # CHR 0x09 # CHR 0x0A # '': (),#<>=!~+-*[]{}$@''))"

text \<open>The definitions a run of the lexer on a given text unfolds.\<close>

lemmas scan_eval =
  run_def run_loop.simps state_call_def lexAnything.simps lexAnything_switch_def
  NewBetterLexer_def next_rune_def slice_def DecodeRuneInString_def emit_then_def emit_def peek_def
  backup_def ignore_def eof_def lexAnything_end_def Let_def
  spec_recognizers_def lexNumber_def lexSingleQuoteString_def lexSymbol_def lexWhitespace_def
  lexNewlines_def lexReference_def lexComment_def acceptRunOf.simps scanSingleQuote.simps
  bind_p_def finish_token_def is_digit_rune_def is_lower_rune_def is_upper_rune_def is_ident_rune_def
  reference_kind_def

text \<open>
  C2, as the code has it. The claim says that an unrecognised character makes the parse
  end with an error value and without a crash. The code panics instead: when the dispatch
  state reads a rune that has no case in its \<open>switch\<close>, \<open>lexAnything\<close> panics with
  \<open>unknown rune encountered\<close>, and so does the producer \<open>run\<close>, whatever the recognizers are;
  nothing is added to the token stream (no error token, no end-of-input marker) and
  \<open>LastError\<close> is left as it was. An error token that reaches \<open>Lex\<close> makes \<open>Lex\<close> panic too
  (\<open>error, unknown token\<close>) rather than return an error value.
\<close>

theorem unknown_rune_panics:
  assumes "next_rune l = Inr (r, l1)" and "\<not> dispatched r"
  shows "lexAnything l = Inl (UnknownRune r, l1)
         \<and> run rs l = Some (Inl (UnknownRune r, l1))
         \<and> tokens l1 = tokens l \<and> closed l1 = closed l \<and> LastError l1 = LastError l
         \<and> Lex lval (\<lparr>tok_typ = tokenTypeError, tok_value = v\<rparr> # rest) = Inl (ErrorToken v)"
proof -
  from assms have sw: "lexAnything_switch l = Inl (UnknownRune r, l1)"
    by (simp add: lexAnything_switch_def dispatched_def is_digit_rune_def is_lower_rune_def
        is_upper_rune_def)
  then have la: "lexAnything l = Inl (UnknownRune r, l1)"
    by (simp add: lexAnything.simps[of l])
  then have "run rs l = Some (Inl (UnknownRune r, l1))"
    by (simp add: run_def run_loop.simps[of rs "Some LexAnything" l] state_call_def)
  moreover have "Lex lval (\<lparr>tok_typ = tokenTypeError, tok_value = v\<rparr> # rest) = Inl (ErrorToken v)"
    by (simp add: Lex_def)
  ultimately show ?thesis using la next_rune_fields[OF assms(1)] by simp
qed

theorem unknown_rune_panics_witness:
  "next_rune (NewBetterLexer ''5%'' \<lparr>pos := 1\<rparr>) = Inr (37, NewBetterLexer ''5%'' \<lparr>width := 1, pos := 2\<rparr>)
   \<and> \<not> dispatched 37
   \<and> lexAnything (NewBetterLexer ''5%'' \<lparr>pos := 1\<rparr>)
       = Inl (UnknownRune 37, NewBetterLexer ''5%'' \<lparr>width := 1, pos := 2\<rparr>)
   \<and> run spec_recognizers (NewBetterLexer ''5%'' \<lparr>pos := 1\<rparr>)
       = Some (Inl (UnknownRune 37, NewBetterLexer ''5%'' \<lparr>width := 1, pos := 2\<rparr>))"
proof -
  have n: "next_rune (NewBetterLexer ''5%'' \<lparr>pos := 1\<rparr>)
           = Inr (37, NewBetterLexer ''5%'' \<lparr>width := 1, pos := 2\<rparr>)"
    by (simp add: next_rune_def NewBetterLexer_def slice_def DecodeRuneInString_def)
  have d: "\<not> dispatched 37"
    by (simp add: dispatched_def is_digit_rune_def is_lower_rune_def is_upper_rune_def eof_def)
  from unknown_rune_panics[OF n d, of spec_recognizers] n d show ?thesis by simp
qed

theorem unknown_rune_crashes_counterexample:
  "run spec_recognizers (NewBetterLexer ''%'')
     = Some (Inl (UnknownRune 37,
         \<lparr>input = ''%'', start = 0, pos = 1, width = 1, tokens = [], closed = False,
          LastError = None\<rparr>))"
  by (simp add: scan_eval)




end
